theory Spec2Isabelle
  imports Main
begin

section \<open>NovaSanctum: data model\<close>

text \<open>
  The security service (\<^verbatim>\<open>backend/src/services/novas Sanctum.service.ts\<close>) works on three
  Prisma tables: users (with their roles and permissions included), sessions and the audit
  log. Tables are lists of rows; the primary key \<^verbatim>\<open>id\<close> is unique in the database.
  Timestamps (\<^verbatim>\<open>Date\<close>) are milliseconds since the epoch. The clock is read once per
  operation and passed in as \<open>now\<close>. Values produced outside the code (the random
  \<^verbatim>\<open>uuidv4()\<close> refresh token, the id the database gives a new session row) are inputs too.
\<close>

type_synonym time = int

datatype error =
    Error string
  | AuthenticationError string
  | AuthorizationError string
  | RecordNotFound

text \<open>JSON and JavaScript values, as far as truthiness and \<^verbatim>\<open>===\<close> on strings need them.\<close>

datatype jsval =
    JUndefined
  | JNull
  | JBool bool
  | JNum int
  | JStr string
  | JObject

fun truthy :: "jsval \<Rightarrow> bool" where
  "truthy JUndefined = False"
| "truthy JNull = False"
| "truthy (JBool b) = b"
| "truthy (JNum n) = (n \<noteq> 0)"
| "truthy (JStr s) = (s \<noteq> [])"
| "truthy JObject = True"

text \<open>The JavaScript \<^verbatim>\<open>a || b\<close>.\<close>

definition js_or :: "jsval \<Rightarrow> jsval \<Rightarrow> jsval" where
  "js_or a b = (if truthy a then a else b)"

text \<open>Property lookup \<^verbatim>\<open>obj[key]\<close>: an absent property is \<^verbatim>\<open>undefined\<close>.\<close>

definition js_get :: "(string \<rightharpoonup> jsval) \<Rightarrow> string \<Rightarrow> jsval" where
  "js_get obj k = (case obj k of None \<Rightarrow> JUndefined | Some v \<Rightarrow> v)"

record role_row =
  r_name :: string
  r_permissions :: "string list"

record user_row =
  u_id :: string
  u_email :: string
  u_username :: string
  u_password :: string
  u_roles :: "role_row list"
  u_isActive :: bool
  u_isLocked :: bool
  u_lockedUntil :: "time option"
  u_failedLoginAttempts :: int
  u_lastLoginAt :: "time option"
  u_createdAt :: time
  u_updatedAt :: time

record session_row =
  s_id :: string
  s_userId :: string
  s_refreshToken :: string
  s_ipAddress :: string
  s_userAgent :: string
  s_isActive :: bool
  s_expiresAt :: time
  s_createdAt :: time

record audit_row =
  a_userId :: "string option"
  a_action :: string
  a_resource :: string
  a_ipAddress :: jsval
  a_userAgent :: jsval
  a_details :: "(string \<times> jsval) list"
  a_timestamp :: time

record store =
  users :: "user_row list"
  sessions :: "session_row list"
  auditLog :: "audit_row list"

text \<open>
  \<^verbatim>\<open>NovaSanctumUser\<close>, \<^verbatim>\<open>NovaSanctumToken\<close> and \<^verbatim>\<open>NovaSanctumSecurityConfig\<close>. The field
  \<^verbatim>\<open>refreshToken\<close> of the token pair is \<open>refreshToken_of\<close> here, since \<open>refreshToken\<close> is
  the name of the service method.
\<close>

record NovaSanctumUser =
  nu_id :: string
  nu_email :: string
  nu_username :: string
  nu_roles :: "string list"
  nu_permissions :: "string list"
  nu_isActive :: bool
  nu_lastLoginAt :: "time option"
  nu_createdAt :: time
  nu_updatedAt :: time

record NovaSanctumToken =
  accessToken :: string
  refreshToken_of :: string
  expiresIn :: int
  refreshExpiresIn :: int
  tokenType :: string

record NovaSanctumSecurityConfig =
  jwtSecret :: string
  jwtExpiresIn :: string
  refreshTokenExpiresIn :: string
  bcryptRounds :: int
  rateLimitWindowMs :: int
  rateLimitMax :: int
  sessionTimeoutMs :: int
  maxLoginAttempts :: int
  lockoutDurationMs :: int

text \<open>The configuration the constructor loads when no environment variable is set.\<close>

definition default_config :: NovaSanctumSecurityConfig where
  "default_config =
     \<lparr> jwtSecret = ''default-secret-change-in-production'',
       jwtExpiresIn = ''24h'',
       refreshTokenExpiresIn = ''7d'',
       bcryptRounds = 12,
       rateLimitWindowMs = 900000,
       rateLimitMax = 100,
       sessionTimeoutMs = 86400000,
       maxLoginAttempts = 5,
       lockoutDurationMs = 900000 \<rparr>"

subsection \<open>Library primitives\<close>

text \<open>
  The code calls four primitives of external libraries: \<^verbatim>\<open>bcrypt.compare\<close>,
  \<^verbatim>\<open>createHash('sha256')\<close>, \<^verbatim>\<open>jwt.sign\<close> and \<^verbatim>\<open>jwt.verify\<close>. They are parameters of the
  model, collected in one record. \<open>jwt_sign\<close> may throw (a time span it cannot read), so
  it returns a sum; \<open>jwt_verify\<close> throws on a bad signature or an expired token, which is
  \<open>None\<close> here. Both read the clock.
\<close>

record jwt_payload =
  p_userId :: string
  p_type :: string

record library =
  bcrypt_compare :: "string \<Rightarrow> string \<Rightarrow> bool"
  sha256_hex :: "string \<Rightarrow> string"
  jwt_sign :: "jwt_payload \<Rightarrow> string \<Rightarrow> string \<Rightarrow> time \<Rightarrow> error + string"
  jwt_verify :: "string \<Rightarrow> string \<Rightarrow> time \<Rightarrow> jwt_payload option"

section \<open>The service\<close>

subsection \<open>Table operations\<close>

text \<open>\<^verbatim>\<open>prisma.user.findUnique({ where: { email } })\<close> and \<^verbatim>\<open>{ where: { id } }\<close>.\<close>

definition findUserByEmail :: "store \<Rightarrow> string \<Rightarrow> user_row option" where
  "findUserByEmail st email = find (\<lambda>u. u_email u = email) (users st)"

definition findUserById :: "store \<Rightarrow> string \<Rightarrow> user_row option" where
  "findUserById st uid = find (\<lambda>u. u_id u = uid) (users st)"

text \<open>
  \<^verbatim>\<open>prisma.user.update({ where: { id }, data })\<close>: throws when no row has the id
  (\<open>RecordNotFound\<close>), otherwise returns the updated row. The data written is the function
  \<open>f\<close>. With unique ids exactly one row is rewritten.
\<close>

definition user_update ::
  "string \<Rightarrow> (user_row \<Rightarrow> user_row) \<Rightarrow> store \<Rightarrow> error + (user_row \<times> store)" where
  "user_update uid f st =
     (case findUserById st uid of
        None \<Rightarrow> Inl RecordNotFound
      | Some u \<Rightarrow>
          Inr (f u, st\<lparr>users := map (\<lambda>x. if u_id x = uid then f x else x) (users st)\<rparr>))"

definition session_update ::
  "string \<Rightarrow> (session_row \<Rightarrow> session_row) \<Rightarrow> store \<Rightarrow> error + store" where
  "session_update sid f st =
     (case find (\<lambda>s. s_id s = sid) (sessions st) of
        None \<Rightarrow> Inl RecordNotFound
      | Some s \<Rightarrow>
          Inr (st\<lparr>sessions := map (\<lambda>x. if s_id x = sid then f x else x) (sessions st)\<rparr>))"

subsection \<open>Audit log\<close>

definition logAuditEvent ::
  "time \<Rightarrow> string option \<Rightarrow> string \<Rightarrow> string \<Rightarrow> (string \<times> jsval) list \<Rightarrow> store \<Rightarrow> store" where
  "logAuditEvent now userId action resource details st =
     st\<lparr>auditLog := auditLog st @
        [\<lparr> a_userId = userId,
           a_action = action,
           a_resource = resource,
           a_ipAddress = js_or (js_get (map_of details) ''ipAddress'') (JStr ''unknown''),
           a_userAgent = js_or (js_get (map_of details) ''userAgent'') (JStr ''unknown''),
           a_details = details,
           a_timestamp = now \<rparr>]\<rparr>"

definition logFailedLogin ::
  "time \<Rightarrow> string \<Rightarrow> string \<Rightarrow> string \<Rightarrow> string \<Rightarrow> store \<Rightarrow> store" where
  "logFailedLogin now email ipAddress userAgent reason st =
     logAuditEvent now None ''LOGIN_FAILED'' ''AUTH''
       [(''email'', JStr email),
        (''ipAddress'', JStr ipAddress),
        (''userAgent'', JStr userAgent),
        (''reason'', JStr reason),
        (''success'', JBool False)] st"

subsection \<open>Tokens\<close>

definition hashToken :: "library \<Rightarrow> string \<Rightarrow> string" where
  "hashToken L token = sha256_hex L token"

definition is_digit :: "char \<Rightarrow> bool" where
  "is_digit c = (c \<in> set ''0123456789'')"

text \<open>\<^verbatim>\<open>parseInt\<close> on a string of decimal digits.\<close>

definition parseInt :: "string \<Rightarrow> int" where
  "parseInt ds = foldl (\<lambda>acc c. 10 * acc + (int (of_char c) - 48)) 0 ds"

definition units :: "char \<Rightarrow> int" where
  "units c =
     (if c = CHR ''s'' then 1000
      else if c = CHR ''m'' then 60 * 1000
      else if c = CHR ''h'' then 60 * 60 * 1000
      else 24 * 60 * 60 * 1000)"

text \<open>The expiry string must match \<^verbatim>\<open>/^(\d+)([smhd])$/\<close>.\<close>

definition parseJwtExpiration :: "string \<Rightarrow> error + int" where
  "parseJwtExpiration e =
     (if 2 \<le> length e \<and> list_all is_digit (butlast e) \<and> last e \<in> set ''smhd''
      then Inr (parseInt (butlast e) * units (last e))
      else Inl (Error ''Invalid JWT expiration format''))"

definition generateTokens ::
  "library \<Rightarrow> NovaSanctumSecurityConfig \<Rightarrow> time \<Rightarrow> string \<Rightarrow> string \<Rightarrow> error + NovaSanctumToken" where
  "generateTokens L cfg now uuid userId =
     (case jwt_sign L \<lparr>p_userId = userId, p_type = ''access''\<rparr>
             (jwtSecret cfg) (jwtExpiresIn cfg) now of
        Inl e \<Rightarrow> Inl e
      | Inr signed \<Rightarrow>
     (case parseJwtExpiration (jwtExpiresIn cfg) of
        Inl e \<Rightarrow> Inl e
      | Inr ei \<Rightarrow>
     (case parseJwtExpiration (refreshTokenExpiresIn cfg) of
        Inl e \<Rightarrow> Inl e
      | Inr rei \<Rightarrow>
          Inr \<lparr> accessToken = signed,
                refreshToken_of = uuid,
                expiresIn = ei,
                refreshExpiresIn = rei,
                tokenType = ''Bearer'' \<rparr>)))"

subsection \<open>Sessions\<close>

definition createSession ::
  "library \<Rightarrow> NovaSanctumSecurityConfig \<Rightarrow> time \<Rightarrow> string \<Rightarrow>
   string \<Rightarrow> string \<Rightarrow> string \<Rightarrow> string \<Rightarrow> store \<Rightarrow> store" where
  "createSession L cfg now newId userId rawToken ipAddress userAgent st =
     st\<lparr>sessions := sessions st @
        [\<lparr> s_id = newId,
           s_userId = userId,
           s_refreshToken = hashToken L rawToken,
           s_ipAddress = ipAddress,
           s_userAgent = userAgent,
           s_isActive = True,
           s_expiresAt = now + sessionTimeoutMs cfg,
           s_createdAt = now \<rparr>]\<rparr>"

definition updateSession ::
  "library \<Rightarrow> NovaSanctumSecurityConfig \<Rightarrow> time \<Rightarrow> string \<Rightarrow> string \<Rightarrow> store \<Rightarrow> error + store" where
  "updateSession L cfg now sessionId rawToken st =
     session_update sessionId
       (\<lambda>s. s\<lparr>s_refreshToken := hashToken L rawToken,
              s_expiresAt := now + sessionTimeoutMs cfg\<rparr>) st"

text \<open>
  The query at the head of \<^verbatim>\<open>refreshToken\<close>:
  \<^verbatim>\<open>findFirst({ where: { refreshToken: hash, isActive: true, expiresAt: { gt: new Date() } } })\<close>.
\<close>

definition findActiveByRawToken :: "library \<Rightarrow> time \<Rightarrow> string \<Rightarrow> store \<Rightarrow> session_row option" where
  "findActiveByRawToken L now rawToken st =
     find (\<lambda>s. s_refreshToken s = hashToken L rawToken \<and> s_isActive s \<and> s_expiresAt s > now)
       (sessions st)"

subsection \<open>Lockout counters\<close>

definition updateLastLogin :: "time \<Rightarrow> string \<Rightarrow> store \<Rightarrow> error + store" where
  "updateLastLogin now userId st =
     map_sum id snd (user_update userId (\<lambda>u. u\<lparr>u_lastLoginAt := Some now\<rparr>) st)"

definition handleFailedLogin ::
  "NovaSanctumSecurityConfig \<Rightarrow> time \<Rightarrow> string \<Rightarrow> string \<Rightarrow> string \<Rightarrow> string \<Rightarrow> store \<Rightarrow> error + store" where
  "handleFailedLogin cfg now userId email ipAddress userAgent st =
     (case user_update userId
             (\<lambda>u. u\<lparr>u_failedLoginAttempts := u_failedLoginAttempts u + 1\<rparr>) st of
        Inl e \<Rightarrow> Inl e
      | Inr (user, st1) \<Rightarrow>
          (if u_failedLoginAttempts user \<ge> maxLoginAttempts cfg
           then (case user_update userId
                        (\<lambda>u. u\<lparr>u_isLocked := True,
                               u_lockedUntil := Some (now + lockoutDurationMs cfg)\<rparr>) st1 of
                   Inl e \<Rightarrow> Inl e
                 | Inr (_, st2) \<Rightarrow>
                     Inr (logFailedLogin now email ipAddress userAgent ''Invalid password'' st2))
           else Inr (logFailedLogin now email ipAddress userAgent ''Invalid password'' st1)))"

definition resetFailedLoginAttempts :: "string \<Rightarrow> store \<Rightarrow> error + store" where
  "resetFailedLoginAttempts userId st =
     map_sum id snd
       (user_update userId
          (\<lambda>u. u\<lparr>u_failedLoginAttempts := 0, u_isLocked := False, u_lockedUntil := None\<rparr>) st)"

subsection \<open>Login\<close>

text \<open>
  \<^verbatim>\<open>authenticateUser(email, password, ipAddress, userAgent)\<close>. The result is the token pair
  or the error thrown, together with the store as the call leaves it: the audit entry and
  the counter updates of a failed attempt are written before the error is thrown. The
  \<^verbatim>\<open>catch\<close> block logs and rethrows the same error.
\<close>

definition authenticateUser ::
  "library \<Rightarrow> NovaSanctumSecurityConfig \<Rightarrow> time \<Rightarrow> string \<Rightarrow> string \<Rightarrow>
   string \<Rightarrow> string \<Rightarrow> string \<Rightarrow> string \<Rightarrow> store \<Rightarrow> (error + NovaSanctumToken) \<times> store" where
  "authenticateUser L cfg now uuid newId email password ipAddress userAgent st =
     (case findUserByEmail st email of
        None \<Rightarrow>
          (Inl (Error ''Invalid credentials''),
           logFailedLogin now email ipAddress userAgent ''User not found'' st)
      | Some user \<Rightarrow>
          if u_isLocked user then
            (Inl (Error ''Account is locked due to multiple failed login attempts''),
             logFailedLogin now email ipAddress userAgent ''Account locked'' st)
          else if \<not> bcrypt_compare L password (u_password user) then
            (case handleFailedLogin cfg now (u_id user) email ipAddress userAgent st of
               Inl e \<Rightarrow> (Inl e, st)
             | Inr st1 \<Rightarrow> (Inl (Error ''Invalid credentials''), st1))
          else
            (case resetFailedLoginAttempts (u_id user) st of
               Inl e \<Rightarrow> (Inl e, st)
             | Inr st1 \<Rightarrow>
            (case generateTokens L cfg now uuid (u_id user) of
               Inl e \<Rightarrow> (Inl e, st1)
             | Inr tokens \<Rightarrow>
                let st2 = createSession L cfg now newId (u_id user) (refreshToken_of tokens)
                            ipAddress userAgent st1
                in
            (case updateLastLogin now (u_id user) st2 of
               Inl e \<Rightarrow> (Inl e, st2)
             | Inr st3 \<Rightarrow>
                (Inr tokens,
                 logAuditEvent now (Some (u_id user)) ''LOGIN'' ''AUTH''
                   [(''email'', JStr email),
                    (''ipAddress'', JStr ipAddress),
                    (''userAgent'', JStr userAgent),
                    (''success'', JBool True)] st3)))))"

subsection \<open>Refresh\<close>

definition refreshToken ::
  "library \<Rightarrow> NovaSanctumSecurityConfig \<Rightarrow> time \<Rightarrow> string \<Rightarrow>
   string \<Rightarrow> string \<Rightarrow> store \<Rightarrow> (error + NovaSanctumToken) \<times> store" where
  "refreshToken L cfg now uuid rawToken ipAddress st =
     (case findActiveByRawToken L now rawToken st of
        None \<Rightarrow> (Inl (Error ''Invalid or expired refresh token''), st)
      | Some session \<Rightarrow>
          let st1 = (if s_ipAddress session \<noteq> ipAddress
                     then logAuditEvent now (Some (s_userId session))
                            ''REFRESH_TOKEN_IP_MISMATCH'' ''AUTH''
                            [(''sessionIp'', JStr (s_ipAddress session)),
                             (''requestIp'', JStr ipAddress)] st
                     else st)
          in
          (case generateTokens L cfg now uuid (s_userId session) of
             Inl e \<Rightarrow> (Inl e, st1)
           | Inr tokens \<Rightarrow>
          (case updateSession L cfg now (s_id session) (refreshToken_of tokens) st1 of
             Inl e \<Rightarrow> (Inl e, st1)
           | Inr st2 \<Rightarrow>
              (Inr tokens,
               logAuditEvent now (Some (s_userId session)) ''TOKEN_REFRESH'' ''AUTH''
                 [(''ipAddress'', JStr ipAddress), (''success'', JBool True)] st2))))"

subsection \<open>Verification of an access token\<close>

text \<open>
  The body of the \<^verbatim>\<open>try\<close> block of \<^verbatim>\<open>verifyToken\<close>. What \<^verbatim>\<open>jwt.verify\<close> throws is
  written \<open>Error ''jwt.verify''\<close>; the \<^verbatim>\<open>catch\<close> block below discards it.
\<close>

definition verifyToken_try ::
  "library \<Rightarrow> NovaSanctumSecurityConfig \<Rightarrow> time \<Rightarrow> string \<Rightarrow> store \<Rightarrow> error + NovaSanctumUser" where
  "verifyToken_try L cfg now token st =
     (case jwt_verify L token (jwtSecret cfg) now of
        None \<Rightarrow> Inl (Error ''jwt.verify'')
      | Some decoded \<Rightarrow>
     (case findUserById st (p_userId decoded) of
        None \<Rightarrow> Inl (Error ''User not found or inactive'')
      | Some user \<Rightarrow>
          if \<not> u_isActive user then Inl (Error ''User not found or inactive'')
          else
            Inr \<lparr> nu_id = u_id user,
                  nu_email = u_email user,
                  nu_username = u_username user,
                  nu_roles = map r_name (u_roles user),
                  nu_permissions = concat (map r_permissions (u_roles user)),
                  nu_isActive = u_isActive user,
                  nu_lastLoginAt = u_lastLoginAt user,
                  nu_createdAt = u_createdAt user,
                  nu_updatedAt = u_updatedAt user \<rparr>))"

text \<open>The \<^verbatim>\<open>catch\<close> block replaces every error by \<^verbatim>\<open>Error('Invalid token')\<close>.\<close>

definition verifyToken ::
  "library \<Rightarrow> NovaSanctumSecurityConfig \<Rightarrow> time \<Rightarrow> string \<Rightarrow> store \<Rightarrow> error + NovaSanctumUser" where
  "verifyToken L cfg now token st =
     (case verifyToken_try L cfg now token st of
        Inl e \<Rightarrow> Inl (Error ''Invalid token'')
      | Inr user \<Rightarrow> Inr user)"

subsection \<open>Authorization evaluator\<close>

definition hasPermission :: "NovaSanctumUser \<Rightarrow> string \<Rightarrow> bool" where
  "hasPermission user permission = (permission \<in> set (nu_permissions user))"

definition hasRole :: "NovaSanctumUser \<Rightarrow> string \<Rightarrow> bool" where
  "hasRole user role = (role \<in> set (nu_roles user))"

definition hasAnyRole :: "NovaSanctumUser \<Rightarrow> string list \<Rightarrow> bool" where
  "hasAnyRole user roles = list_ex (\<lambda>role. role \<in> set (nu_roles user)) roles"

definition hasAllPermissions :: "NovaSanctumUser \<Rightarrow> string list \<Rightarrow> bool" where
  "hasAllPermissions user permissions =
     list_all (\<lambda>permission. permission \<in> set (nu_permissions user)) permissions"

section \<open>Route guards and the login route\<close>

text \<open>
  A guard reads the request and calls \<^verbatim>\<open>next()\<close> or \<^verbatim>\<open>next(err)\<close>. The request carries the
  identity that \<^verbatim>\<open>authenticateToken\<close> attached (if any), the route parameters and the parsed
  JSON body.
\<close>

record request =
  req_user :: "NovaSanctumUser option"
  req_params :: "string \<rightharpoonup> jsval"
  req_body :: "string \<rightharpoonup> jsval"

datatype next_result = Next | NextErr error

definition requireRoles :: "string list \<Rightarrow> request \<Rightarrow> next_result" where
  "requireRoles roles req =
     (case req_user req of
        None \<Rightarrow> NextErr (AuthenticationError ''Authentication required'')
      | Some user \<Rightarrow>
          if \<not> hasAnyRole user roles
          then NextErr (AuthorizationError ''Insufficient role permissions'')
          else Next)"

definition requirePermissions :: "string list \<Rightarrow> request \<Rightarrow> next_result" where
  "requirePermissions permissions req =
     (case req_user req of
        None \<Rightarrow> NextErr (AuthenticationError ''Authentication required'')
      | Some user \<Rightarrow>
          if \<not> hasAllPermissions user permissions
          then NextErr (AuthorizationError ''Insufficient permissions'')
          else Next)"

text \<open>
  \<^verbatim>\<open>req.params[ownerIdField] || req.body[ownerIdField]\<close>: the owner id is the one the
  request carries. The application installs \<^verbatim>\<open>express.json()\<close>, so the body is an object.
\<close>

definition resourceOwnerId :: "string \<Rightarrow> request \<Rightarrow> jsval" where
  "resourceOwnerId ownerIdField req =
     js_or (js_get (req_params req) ownerIdField) (js_get (req_body req) ownerIdField)"

definition requireOwnerOrAdmin :: "string \<Rightarrow> request \<Rightarrow> next_result" where
  "requireOwnerOrAdmin ownerIdField req =
     (case req_user req of
        None \<Rightarrow> NextErr (AuthenticationError ''Authentication required'')
      | Some user \<Rightarrow>
          if hasRole user ''admin'' then Next
          else if JStr (nu_id user) = resourceOwnerId ownerIdField req then Next
          else NextErr (AuthorizationError ''Access denied''))"

text \<open>
  \<^verbatim>\<open>POST /login\<close> of \<^verbatim>\<open>routes/auth.ts\<close>. A missing or empty \<^verbatim>\<open>email\<close> or
  \<^verbatim>\<open>password\<close> is the empty string here; the \<^verbatim>\<open>User-Agent\<close> header may be absent.
\<close>

datatype http_response =
    LoginOk NovaSanctumToken
  | HttpError nat string

definition login_route ::
  "library \<Rightarrow> NovaSanctumSecurityConfig \<Rightarrow> time \<Rightarrow> string \<Rightarrow> string \<Rightarrow>
   string \<Rightarrow> string \<Rightarrow> string \<Rightarrow> string option \<Rightarrow> store \<Rightarrow> http_response \<times> store" where
  "login_route L cfg now uuid newId email password ipAddress userAgentHeader st =
     (let userAgent = (case userAgentHeader of
                         None \<Rightarrow> ''unknown''
                       | Some h \<Rightarrow> if h = [] then ''unknown'' else h)
      in
      if email = [] \<or> password = [] then
        (HttpError 400 ''Email and password are required'', st)
      else
        (case authenticateUser L cfg now uuid newId email password ipAddress userAgent st of
           (Inr tokens, st') \<Rightarrow> (LoginOk tokens, st')
         | (Inl e, st') \<Rightarrow> (HttpError 401 ''Invalid credentials'', st')))"

section \<open>Concrete inputs\<close>

text \<open>
  A stand-in for the libraries, used only to run the service on concrete inputs: the
  password hash of \<open>pw\<close> is \<open>bcrypt:pw\<close>, the digest of \<open>t\<close> is \<open>sha256:t\<close>, and an
  access token for user \<open>u\<close> is \<open>jwt:u\<close>.
\<close>

definition demo_library :: library where
  "demo_library =
     \<lparr> bcrypt_compare = (\<lambda>pw h. h = ''bcrypt:'' @ pw),
       sha256_hex = (\<lambda>t. ''sha256:'' @ t),
       jwt_sign = (\<lambda>p secret e t. Inr (''jwt:'' @ p_userId p)),
       jwt_verify = (\<lambda>tok secret t.
          if take 4 tok = ''jwt:''
          then Some \<lparr>p_userId = drop 4 tok, p_type = ''access''\<rparr>
          else None) \<rparr>"

definition demo_user :: "string \<Rightarrow> string \<Rightarrow> string \<Rightarrow> user_row" where
  "demo_user uid email pw =
     \<lparr> u_id = uid, u_email = email, u_username = uid, u_password = ''bcrypt:'' @ pw,
       u_roles = [\<lparr>r_name = ''user'', r_permissions = [''post:delete:own'']\<rparr>],
       u_isActive = True, u_isLocked = False, u_lockedUntil = None,
       u_failedLoginAttempts = 0, u_lastLoginAt = None,
       u_createdAt = 0, u_updatedAt = 0 \<rparr>"

definition demo_session :: session_row where
  "demo_session =
     \<lparr> s_id = ''s1'', s_userId = ''u1'', s_refreshToken = ''sha256:rt-old'',
       s_ipAddress = ''10.0.0.1'', s_userAgent = ''agent'', s_isActive = True,
       s_expiresAt = 5000, s_createdAt = 0 \<rparr>"

text \<open>
  Four users with password \<open>P1\<close>: \<open>u1\<close> in good standing; \<open>u2\<close> locked at the fifth
  failure, with a lock that ran out at time 100; \<open>u3\<close> deactivated; \<open>u4\<close> one failure
  short of the threshold. One session, held by \<open>u1\<close>, that expires at time 5000.
\<close>

definition demo_store :: store where
  "demo_store =
     \<lparr> users =
         [demo_user ''u1'' ''a@x.com'' ''P1'',
          (demo_user ''u2'' ''b@x.com'' ''P1'')
             \<lparr>u_isLocked := True, u_lockedUntil := Some 100, u_failedLoginAttempts := 5\<rparr>,
          (demo_user ''u3'' ''c@x.com'' ''P1'')\<lparr>u_isActive := False\<rparr>,
          (demo_user ''u4'' ''d@x.com'' ''P1'')\<lparr>u_failedLoginAttempts := 4\<rparr>],
       sessions = [demo_session],
       auditLog = [] \<rparr>"

definition demo_identity :: "string \<Rightarrow> string list \<Rightarrow> NovaSanctumUser" where
  "demo_identity uid roles =
     \<lparr> nu_id = uid, nu_email = ''a@x.com'', nu_username = uid,
       nu_roles = roles, nu_permissions = [''post:delete:own''],
       nu_isActive = True, nu_lastLoginAt = None, nu_createdAt = 0, nu_updatedAt = 0 \<rparr>"

definition demo_request :: "NovaSanctumUser \<Rightarrow> string \<Rightarrow> request" where
  "demo_request user owner =
     \<lparr> req_user = Some user,
       req_params = [''userId'' \<mapsto> JStr owner],
       req_body = Map.empty \<rparr>"

lemmas demo_defs =
  demo_library_def demo_user_def demo_session_def demo_store_def demo_identity_def
  demo_request_def default_config_def

section \<open>Facts about the tables\<close>

lemma find_map_update:
  assumes "\<And>x. key (f x) = key x"
  shows "find (\<lambda>x. key x = k) (map (\<lambda>x. if key x = k then f x else x) xs)
         = map_option f (find (\<lambda>x. key x = k) xs)"
  by (induction xs) (auto simp: assms)

lemma find_Some_mem: "find P xs = Some x \<Longrightarrow> x \<in> set xs \<and> P x"
  by (induction xs) (auto split: if_splits)

lemma find_None_iff_no: "find P xs = None \<longleftrightarrow> (\<forall>x\<in>set xs. \<not> P x)"
  by (induction xs) auto

lemma mem_find_not_None: "x \<in> set xs \<Longrightarrow> P x \<Longrightarrow> find P xs \<noteq> None"
  by (simp add: find_None_iff_no) blast

lemma user_update_found:
  assumes "findUserById st uid = Some u" and "\<And>x. u_id (f x) = u_id x"
  shows "\<exists>st'. user_update uid f st = Inr (f u, st') \<and> findUserById st' uid = Some (f u)
           \<and> sessions st' = sessions st \<and> auditLog st' = auditLog st"
  using assms find_map_update [of u_id f uid "users st"]
  by (simp add: user_update_def findUserById_def)

lemma findUserByEmail_has_id:
  assumes "findUserByEmail st email = Some user"
  shows "\<exists>u. findUserById st (u_id user) = Some u"
proof -
  from assms have "user \<in> set (users st)"
    by (simp add: findUserByEmail_def find_Some_mem)
  then have "find (\<lambda>x. u_id x = u_id user) (users st) \<noteq> None"
    by (rule mem_find_not_None) simp
  then show ?thesis by (auto simp: findUserById_def)
qed

section \<open>Lockout policy\<close>

text \<open>
  C4. A failed password check (\<^verbatim>\<open>handleFailedLogin\<close>) on a stored user succeeds and adds
  exactly 1 to \<open>failedLoginAttempts\<close>. When the new count has reached \<open>maxLoginAttempts\<close>
  the row gets \<open>isLocked = true\<close> and \<open>lockedUntil = now + lockoutDurationMs\<close>; when the new
  count is below it, \<open>isLocked\<close> and \<open>lockedUntil\<close> are as before. The defaults are 5
  attempts and 15 minutes.
\<close>

theorem handleFailedLogin_counts_and_locks:
  assumes "findUserById st userId = Some u"
  shows "\<exists>st' u'. handleFailedLogin cfg now userId email ipAddress userAgent st = Inr st'
           \<and> findUserById st' userId = Some u'
           \<and> u_failedLoginAttempts u' = u_failedLoginAttempts u + 1
           \<and> (maxLoginAttempts cfg \<le> u_failedLoginAttempts u + 1 \<longrightarrow>
                u_isLocked u' \<and> u_lockedUntil u' = Some (now + lockoutDurationMs cfg))
           \<and> (u_failedLoginAttempts u + 1 < maxLoginAttempts cfg \<longrightarrow>
                u_isLocked u' = u_isLocked u \<and> u_lockedUntil u' = u_lockedUntil u)
           \<and> maxLoginAttempts default_config = 5
           \<and> lockoutDurationMs default_config = 15 * 60 * 1000"
proof -
  let ?inc = "\<lambda>u. u\<lparr>u_failedLoginAttempts := u_failedLoginAttempts u + 1\<rparr>"
  let ?lock = "\<lambda>u. u\<lparr>u_isLocked := True, u_lockedUntil := Some (now + lockoutDurationMs cfg)\<rparr>"
  obtain st1 where st1: "user_update userId ?inc st = Inr (?inc u, st1)"
      "findUserById st1 userId = Some (?inc u)"
    using user_update_found [OF assms, of ?inc] by auto
  obtain st2 where st2: "user_update userId ?lock st1 = Inr (?lock (?inc u), st2)"
      "findUserById st2 userId = Some (?lock (?inc u))"
    using user_update_found [OF st1(2), of ?lock] by auto
  have log: "findUserById (logFailedLogin now email ipAddress userAgent r s) userId
             = findUserById s userId" for r s
    by (simp add: logFailedLogin_def logAuditEvent_def findUserById_def)
  show ?thesis
  proof (cases "maxLoginAttempts cfg \<le> u_failedLoginAttempts u + 1")
    case True
    then show ?thesis using st1 st2
      by (simp add: handleFailedLogin_def log default_config_def)
  next
    case False
    then show ?thesis using st1
      by (simp add: handleFailedLogin_def log default_config_def)
  qed
qed

text \<open>
  At the default configuration: the fifth failure of \<open>u4\<close> at time 1000 locks the account
  until 901000, and the first failure of \<open>u1\<close> locks nothing.
\<close>

theorem handleFailedLogin_counts_and_locks_witness:
  "(\<exists>st' u'. handleFailedLogin default_config 1000 ''u4'' ''d@x.com'' ''10.0.0.9'' ''agent''
                demo_store = Inr st'
            \<and> findUserById st' ''u4'' = Some u'
            \<and> u_failedLoginAttempts u' = 5 \<and> u_isLocked u' \<and> u_lockedUntil u' = Some 901000)
   \<and> (\<exists>st' u'. handleFailedLogin default_config 1000 ''u1'' ''a@x.com'' ''10.0.0.9'' ''agent''
                demo_store = Inr st'
            \<and> findUserById st' ''u1'' = Some u'
            \<and> u_failedLoginAttempts u' = 1 \<and> \<not> u_isLocked u' \<and> u_lockedUntil u' = None)"
proof -
  have u4: "findUserById demo_store ''u4''
            = Some ((demo_user ''u4'' ''d@x.com'' ''P1'')\<lparr>u_failedLoginAttempts := 4\<rparr>)"
    by (simp add: findUserById_def demo_store_def demo_user_def)
  have u1: "findUserById demo_store ''u1'' = Some (demo_user ''u1'' ''a@x.com'' ''P1'')"
    by (simp add: findUserById_def demo_store_def demo_user_def)
  show ?thesis
    using handleFailedLogin_counts_and_locks
            [OF u4, of default_config 1000 "''d@x.com''" "''10.0.0.9''" "''agent''"]
          handleFailedLogin_counts_and_locks
            [OF u1, of default_config 1000 "''a@x.com''" "''10.0.0.9''" "''agent''"]
    by (simp add: default_config_def demo_user_def)
qed

section \<open>Authorization\<close>

text \<open>
  C10. \<^verbatim>\<open>hasAllPermissions(user, [])\<close> is true for every user, so the guard
  \<^verbatim>\<open>requirePermissions([])\<close> lets every request with an authenticated user through.
\<close>

theorem hasAllPermissions_empty:
  "hasAllPermissions user [] \<and> requirePermissions [] (req\<lparr>req_user := Some user\<rparr>) = Next"
  by (simp add: hasAllPermissions_def requirePermissions_def)

theorem hasAllPermissions_empty_witness:
  "hasAllPermissions (demo_identity ''u1'' [''user'']) []
   \<and> requirePermissions [] (demo_request (demo_identity ''u1'' [''user'']) ''u2'') = Next"
  using hasAllPermissions_empty
          [of "demo_identity ''u1'' [''user'']" "demo_request (demo_identity ''u1'' [''user'']) ''u2''"]
  by (simp add: demo_request_def)

text \<open>
  C7. For a request that carries an authenticated identity, \<^verbatim>\<open>requireOwnerOrAdmin\<close> calls
  \<^verbatim>\<open>next()\<close> exactly when the identity has the role \<open>admin\<close> or its id is, as a string,
  equal to the owner id of the request (\<^verbatim>\<open>params[field] || body[field]\<close>); in every other
  case it passes on \<^verbatim>\<open>AuthorizationError('Access denied')\<close>. The role is tested first: an
  admin passes whatever the parameters and the body hold.
\<close>

theorem requireOwnerOrAdmin_iff:
  assumes "req_user req = Some user"
  shows "(requireOwnerOrAdmin ownerIdField req = Next \<longleftrightarrow>
            hasRole user ''admin'' \<or> resourceOwnerId ownerIdField req = JStr (nu_id user))
       \<and> (requireOwnerOrAdmin ownerIdField req \<noteq> Next \<longrightarrow>
            requireOwnerOrAdmin ownerIdField req = NextErr (AuthorizationError ''Access denied''))
       \<and> (hasRole user ''admin'' \<longrightarrow>
            requireOwnerOrAdmin ownerIdField (req\<lparr>req_params := ps, req_body := bd\<rparr>) = Next)"
  using assms by (auto simp: requireOwnerOrAdmin_def)

text \<open>
  The user \<open>u1\<close> without the admin role may act on a resource of \<open>u1\<close> and not on one of
  \<open>u2\<close>; an admin may act on the resource of \<open>u2\<close>.
\<close>

theorem requireOwnerOrAdmin_iff_witness:
  "requireOwnerOrAdmin ''userId'' (demo_request (demo_identity ''u1'' [''user'']) ''u1'') = Next
   \<and> requireOwnerOrAdmin ''userId'' (demo_request (demo_identity ''u1'' [''user'']) ''u2'')
       = NextErr (AuthorizationError ''Access denied'')
   \<and> requireOwnerOrAdmin ''userId'' (demo_request (demo_identity ''u9'' [''user'', ''admin'']) ''u2'')
       = Next"
  using requireOwnerOrAdmin_iff
          [of "demo_request (demo_identity ''u1'' [''user'']) ''u1''"
              "demo_identity ''u1'' [''user'']" "''userId''"]
        requireOwnerOrAdmin_iff
          [of "demo_request (demo_identity ''u1'' [''user'']) ''u2''"
              "demo_identity ''u1'' [''user'']" "''userId''"]
        requireOwnerOrAdmin_iff
          [of "demo_request (demo_identity ''u9'' [''user'', ''admin'']) ''u2''"
              "demo_identity ''u9'' [''user'', ''admin'']" "''userId''"
              "req_params (demo_request (demo_identity ''u9'' [''user'', ''admin'']) ''u2'')"
              "req_body (demo_request (demo_identity ''u9'' [''user'', ''admin'']) ''u2'')"]
  by (simp add: demo_request_def demo_identity_def hasRole_def resourceOwnerId_def
        js_or_def js_get_def)

section \<open>Session registry and refresh\<close>

lemma session_update_found:
  assumes "s \<in> set (sessions st)" and "s_id s = sid"
  shows "session_update sid f st
         = Inr (st\<lparr>sessions := map (\<lambda>x. if s_id x = sid then f x else x) (sessions st)\<rparr>)"
proof -
  have "find (\<lambda>x. s_id x = sid) (sessions st) \<noteq> None"
    using assms by (intro mem_find_not_None [of s]) auto
  then show ?thesis by (auto simp: session_update_def)
qed

lemma rotated_hash_unresolved:
  assumes "hashToken L new \<noteq> hashToken L old"
    and "\<forall>s\<in>set ss. s_refreshToken s = hashToken L old \<longrightarrow> s_id s = sid"
  shows "find (\<lambda>s. s_refreshToken s = hashToken L old \<and> s_isActive s \<and> s_expiresAt s > t)
           (map (\<lambda>x. if s_id x = sid
                      then x\<lparr>s_refreshToken := hashToken L new, s_expiresAt := e\<rparr> else x) ss)
         = None"
  using assms by (auto simp: find_None_iff_no)

text \<open>
  C3. Let the old raw refresh token be held by session \<open>sessionId\<close> only (the stored hash
  is unique), and let \<^verbatim>\<open>updateSession\<close> store the hash of a new token whose hash differs
  from the old one. Then the lookup of \<^verbatim>\<open>refreshToken\<close> finds no session for the old raw
  token any more, at whatever time it is presented.
\<close>

theorem updateSession_single_use:
  assumes "updateSession L cfg now sessionId new st = Inr st'"
    and "hashToken L new \<noteq> hashToken L old"
    and "\<forall>s\<in>set (sessions st). s_refreshToken s = hashToken L old \<longrightarrow> s_id s = sessionId"
  shows "findActiveByRawToken L now' old st' = None"
proof -
  from assms(1) have "sessions st' =
      map (\<lambda>x. if s_id x = sessionId
                then x\<lparr>s_refreshToken := hashToken L new,
                       s_expiresAt := now + sessionTimeoutMs cfg\<rparr> else x) (sessions st)"
    by (auto simp: updateSession_def session_update_def split: option.splits)
  then show ?thesis
    using rotated_hash_unresolved [OF assms(2,3)]
    by (simp add: findActiveByRawToken_def)
qed

text \<open>
  The token \<open>rt-old\<close> resolves to session \<open>s1\<close> before the rotation to \<open>rt-new\<close> and to
  nothing after it.
\<close>

theorem updateSession_single_use_witness:
  "\<exists>st'. updateSession demo_library default_config 1000 ''s1'' ''rt-new'' demo_store = Inr st'
      \<and> findActiveByRawToken demo_library 1000 ''rt-old'' demo_store = Some demo_session
      \<and> findActiveByRawToken demo_library 1001 ''rt-old'' st' = None"
proof -
  obtain st' where u:
    "updateSession demo_library default_config 1000 ''s1'' ''rt-new'' demo_store = Inr st'"
    by (simp add: updateSession_def session_update_def demo_store_def demo_session_def)
  have "findActiveByRawToken demo_library 1001 ''rt-old'' st' = None"
    by (rule updateSession_single_use [OF u])
       (simp_all add: hashToken_def demo_library_def demo_store_def demo_session_def)
  moreover have "findActiveByRawToken demo_library 1000 ''rt-old'' demo_store = Some demo_session"
    by (simp add: findActiveByRawToken_def hashToken_def demo_library_def demo_store_def
          demo_session_def)
  ultimately show ?thesis using u by blast
qed

text \<open>
  The same through the whole refresh flow: once a refresh with the old token has succeeded,
  a second refresh with it is rejected, provided the stored hashes were unique and the new
  token hashes differently.
\<close>

lemma refreshToken_replay_rejected:
  assumes ok: "refreshToken L cfg now uuid old ipAddress st = (Inr tokens, st')"
    and new: "hashToken L uuid \<noteq> hashToken L old"
    and uniq: "\<forall>s\<in>set (sessions st). \<forall>s'\<in>set (sessions st).
                 s_refreshToken s = s_refreshToken s' \<longrightarrow> s_id s = s_id s'"
  shows "refreshToken L cfg now' uuid' old ipAddress' st'
         = (Inl (Error ''Invalid or expired refresh token''), st')"
proof -
  from ok obtain session where f: "findActiveByRawToken L now old st = Some session"
    by (auto simp: refreshToken_def split: option.splits)
  then have mem: "session \<in> set (sessions st)" "s_refreshToken session = hashToken L old"
    using find_Some_mem [of _ "sessions st" session] by (auto simp: findActiveByRawToken_def)
  with uniq have only:
    "\<forall>s\<in>set (sessions st). s_refreshToken s = hashToken L old \<longrightarrow> s_id s = s_id session"
    by metis
  from ok f have tok: "refreshToken_of tokens = uuid"
    by (auto simp: refreshToken_def generateTokens_def Let_def split: sum.splits)
  from ok f have "sessions st' =
      map (\<lambda>x. if s_id x = s_id session
                then x\<lparr>s_refreshToken := hashToken L (refreshToken_of tokens),
                       s_expiresAt := now + sessionTimeoutMs cfg\<rparr> else x) (sessions st)"
    by (auto simp: refreshToken_def Let_def updateSession_def session_update_def logAuditEvent_def
             split: sum.splits option.splits if_splits)
  then have "findActiveByRawToken L now' old st' = None"
    unfolding tok using rotated_hash_unresolved [OF new only]
    by (simp add: findActiveByRawToken_def)
  then show ?thesis by (simp add: refreshToken_def)
qed

text \<open>
  C6. When every session that holds the hash of the presented refresh token has
  \<open>expiresAt\<close> equal to the current time, the lookup (\<open>expiresAt > now\<close>, strictly) finds
  nothing and \<^verbatim>\<open>refreshToken\<close> throws \<^verbatim>\<open>Invalid or expired refresh token\<close>, leaving the store
  as it was.
\<close>

theorem refreshToken_expiry_exclusive:
  assumes "\<forall>s\<in>set (sessions st). s_refreshToken s = hashToken L rawToken \<longrightarrow> s_expiresAt s = now"
  shows "findActiveByRawToken L now rawToken st = None
       \<and> refreshToken L cfg now uuid rawToken ipAddress st
         = (Inl (Error ''Invalid or expired refresh token''), st)"
proof -
  have "findActiveByRawToken L now rawToken st = None"
    using assms by (auto simp: findActiveByRawToken_def find_None_iff_no)
  then show ?thesis by (simp add: refreshToken_def)
qed

text \<open>
  The session of \<open>rt-old\<close> expires at 5000: a refresh at 5000 is rejected, one at 4999 is
  not.
\<close>

theorem refreshToken_expiry_exclusive_witness:
  "s_expiresAt demo_session = 5000
   \<and> refreshToken demo_library default_config 5000 ''rt-new'' ''rt-old'' ''10.0.0.1'' demo_store
       = (Inl (Error ''Invalid or expired refresh token''), demo_store)
   \<and> fst (refreshToken demo_library default_config 4999 ''rt-new'' ''rt-old'' ''10.0.0.1'' demo_store)
       \<noteq> Inl (Error ''Invalid or expired refresh token'')"
proof -
  have "\<forall>s\<in>set (sessions demo_store).
          s_refreshToken s = hashToken demo_library ''rt-old'' \<longrightarrow> s_expiresAt s = 5000"
    by (simp add: demo_store_def demo_session_def)
  from refreshToken_expiry_exclusive [OF this, of default_config "''rt-new''" "''10.0.0.1''"]
  have "refreshToken demo_library default_config 5000 ''rt-new'' ''rt-old'' ''10.0.0.1'' demo_store
       = (Inl (Error ''Invalid or expired refresh token''), demo_store)"
    by simp
  moreover have
    "fst (refreshToken demo_library default_config 4999 ''rt-new'' ''rt-old'' ''10.0.0.1'' demo_store)
       \<noteq> Inl (Error ''Invalid or expired refresh token'')"
    by (simp add: refreshToken_def findActiveByRawToken_def hashToken_def generateTokens_def
          parseJwtExpiration_def is_digit_def updateSession_def session_update_def demo_defs)
  ultimately show ?thesis by (simp add: demo_session_def)
qed

lemma logAuditEvent_fields [simp]:
  "users (logAuditEvent now uid a r d st) = users st"
  "sessions (logAuditEvent now uid a r d st) = sessions st"
  by (simp_all add: logAuditEvent_def)

text \<open>
  C8. A refresh whose request IP differs from the IP stored in the session succeeds whenever
  token generation does: it returns the same tokens and leaves the same users and sessions
  as the refresh from the stored IP, with the session rotated to the new refresh token.
  The audit log gets a \<^verbatim>\<open>REFRESH_TOKEN_IP_MISMATCH\<close> entry, followed by the usual
  \<^verbatim>\<open>TOKEN_REFRESH\<close> entry.
\<close>

theorem refreshToken_ip_mismatch_soft:
  assumes found: "findActiveByRawToken L now rawToken st = Some session"
    and mismatch: "s_ipAddress session \<noteq> ipAddress"
    and gen: "generateTokens L cfg now uuid (s_userId session) = Inr tokens"
  shows "\<exists>st' st0.
           refreshToken L cfg now uuid rawToken ipAddress st = (Inr tokens, st')
         \<and> refreshToken L cfg now uuid rawToken (s_ipAddress session) st = (Inr tokens, st0)
         \<and> users st' = users st0
         \<and> sessions st' = sessions st0
         \<and> sessions st' =
             map (\<lambda>x. if s_id x = s_id session
                       then x\<lparr>s_refreshToken := hashToken L (refreshToken_of tokens),
                              s_expiresAt := now + sessionTimeoutMs cfg\<rparr>
                       else x) (sessions st)
         \<and> auditLog st' =
             auditLog
               (logAuditEvent now (Some (s_userId session)) ''TOKEN_REFRESH'' ''AUTH''
                  [(''ipAddress'', JStr ipAddress), (''success'', JBool True)]
                  (logAuditEvent now (Some (s_userId session))
                     ''REFRESH_TOKEN_IP_MISMATCH'' ''AUTH''
                     [(''sessionIp'', JStr (s_ipAddress session)),
                      (''requestIp'', JStr ipAddress)] st))"
proof -
  from found have mem: "session \<in> set (sessions st)"
    using find_Some_mem [of _ "sessions st" session] by (simp add: findActiveByRawToken_def)
  let ?mis = "logAuditEvent now (Some (s_userId session)) ''REFRESH_TOKEN_IP_MISMATCH'' ''AUTH''
                [(''sessionIp'', JStr (s_ipAddress session)), (''requestIp'', JStr ipAddress)] st"
  have mem': "session \<in> set (sessions ?mis)" using mem by simp
  have up0: "updateSession L cfg now (s_id session) (refreshToken_of tokens) st
        = Inr (st\<lparr>sessions := map (\<lambda>x. if s_id x = s_id session
                       then x\<lparr>s_refreshToken := hashToken L (refreshToken_of tokens),
                              s_expiresAt := now + sessionTimeoutMs cfg\<rparr>
                       else x) (sessions st)\<rparr>)"
    unfolding updateSession_def by (rule session_update_found [OF mem]) simp
  have up1: "updateSession L cfg now (s_id session) (refreshToken_of tokens) ?mis
        = Inr (?mis\<lparr>sessions := map (\<lambda>x. if s_id x = s_id session
                       then x\<lparr>s_refreshToken := hashToken L (refreshToken_of tokens),
                              s_expiresAt := now + sessionTimeoutMs cfg\<rparr>
                       else x) (sessions ?mis)\<rparr>)"
    unfolding updateSession_def by (rule session_update_found [OF mem']) simp
  show ?thesis
    using found mismatch gen up0 up1
    by (simp add: refreshToken_def logAuditEvent_def)
qed

text \<open>
  Session \<open>s1\<close> was opened from 10.0.0.1; a refresh from 10.0.0.9 gets its tokens, rotates
  the session and logs both events.
\<close>

theorem refreshToken_ip_mismatch_soft_witness:
  "\<exists>st'. refreshToken demo_library default_config 1000 ''rt-new'' ''rt-old'' ''10.0.0.9'' demo_store
        = (Inr \<lparr>accessToken = ''jwt:u1'', refreshToken_of = ''rt-new'', expiresIn = 86400000,
                refreshExpiresIn = 604800000, tokenType = ''Bearer''\<rparr>, st')
      \<and> map s_refreshToken (sessions st') = [''sha256:rt-new'']
      \<and> map a_action (auditLog st') = [''REFRESH_TOKEN_IP_MISMATCH'', ''TOKEN_REFRESH'']"
proof -
  have f: "findActiveByRawToken demo_library 1000 ''rt-old'' demo_store = Some demo_session"
    by (simp add: findActiveByRawToken_def hashToken_def demo_defs)
  have m: "s_ipAddress demo_session \<noteq> ''10.0.0.9''"
    by (simp add: demo_session_def)
  have g: "generateTokens demo_library default_config 1000 ''rt-new'' (s_userId demo_session)
           = Inr \<lparr>accessToken = ''jwt:u1'', refreshToken_of = ''rt-new'', expiresIn = 86400000,
                refreshExpiresIn = 604800000, tokenType = ''Bearer''\<rparr>"
    by (simp add: generateTokens_def parseJwtExpiration_def is_digit_def parseInt_def units_def
          demo_defs)
  let ?tokens = "\<lparr>accessToken = ''jwt:u1'', refreshToken_of = ''rt-new'', expiresIn = 86400000,
                refreshExpiresIn = 604800000, tokenType = ''Bearer''\<rparr>"
  from refreshToken_ip_mismatch_soft [OF f m g]
  obtain st' st0 where r: "refreshToken demo_library default_config 1000 ''rt-new'' ''rt-old''
                         ''10.0.0.9'' demo_store = (Inr ?tokens, st')"
    and r0: "refreshToken demo_library default_config 1000 ''rt-new'' ''rt-old''
                         (s_ipAddress demo_session) demo_store = (Inr ?tokens, st0)"
    and u: "users st' = users st0"
    and s0: "sessions st' = sessions st0"
    and s: "sessions st' =
             map (\<lambda>x. if s_id x = s_id demo_session
                       then x\<lparr>s_refreshToken := hashToken demo_library (refreshToken_of ?tokens),
                              s_expiresAt := 1000 + sessionTimeoutMs default_config\<rparr>
                       else x) (sessions demo_store)"
    and a: "auditLog st' =
             auditLog
               (logAuditEvent 1000 (Some (s_userId demo_session)) ''TOKEN_REFRESH'' ''AUTH''
                  [(''ipAddress'', JStr ''10.0.0.9''), (''success'', JBool True)]
                  (logAuditEvent 1000 (Some (s_userId demo_session))
                     ''REFRESH_TOKEN_IP_MISMATCH'' ''AUTH''
                     [(''sessionIp'', JStr (s_ipAddress demo_session)),
                      (''requestIp'', JStr ''10.0.0.9'')] demo_store))"
    by (elim exE conjE) (rule that)
  have "map s_refreshToken (sessions st') = [''sha256:rt-new'']"
    unfolding s by (simp add: hashToken_def demo_library_def demo_store_def demo_session_def)
  moreover have "map a_action (auditLog st') = [''REFRESH_TOKEN_IP_MISMATCH'', ''TOKEN_REFRESH'']"
    unfolding a by (simp add: logAuditEvent_def demo_store_def)
  ultimately show ?thesis using r by (intro exI conjI)
qed

section \<open>Login\<close>

text \<open>
  C9. \<^verbatim>\<open>authenticateUser\<close> never reads \<open>isActive\<close>: for a stored user who is not locked
  and whose password matches, it returns the generated token pair and appends a session for
  that user, whenever token generation succeeds. Nothing is assumed about \<open>isActive\<close>, so
  a deactivated user logs in like any other.
\<close>

theorem authenticateUser_ignores_isActive:
  assumes found: "findUserByEmail st email = Some user"
    and unlocked: "\<not> u_isLocked user"
    and pw: "bcrypt_compare L password (u_password user)"
    and gen: "generateTokens L cfg now uuid (u_id user) = Inr tokens"
  shows "\<exists>st'. authenticateUser L cfg now uuid newId email password ipAddress userAgent st
                = (Inr tokens, st')
           \<and> sessions st' = sessions st @
                [\<lparr> s_id = newId, s_userId = u_id user,
                   s_refreshToken = hashToken L (refreshToken_of tokens),
                   s_ipAddress = ipAddress, s_userAgent = userAgent, s_isActive = True,
                   s_expiresAt = now + sessionTimeoutMs cfg, s_createdAt = now \<rparr>]"
proof -
  let ?reset = "\<lambda>u. u\<lparr>u_failedLoginAttempts := 0, u_isLocked := False, u_lockedUntil := None\<rparr>"
  let ?seen = "\<lambda>u. u\<lparr>u_lastLoginAt := Some now\<rparr>"
  obtain u0 where u0: "findUserById st (u_id user) = Some u0"
    using findUserByEmail_has_id [OF found] by blast
  obtain st1 where st1: "user_update (u_id user) ?reset st = Inr (?reset u0, st1)"
      "findUserById st1 (u_id user) = Some (?reset u0)" "sessions st1 = sessions st"
    using user_update_found [OF u0, of ?reset] by auto
  let ?st2 = "createSession L cfg now newId (u_id user) (refreshToken_of tokens)
                ipAddress userAgent st1"
  have "findUserById ?st2 (u_id user) = Some (?reset u0)"
    using st1(2) by (simp add: createSession_def findUserById_def)
  then obtain st3 where st3: "user_update (u_id user) ?seen ?st2 = Inr (?seen (?reset u0), st3)"
      "sessions st3 = sessions ?st2"
    using user_update_found [of ?st2 "u_id user" "?reset u0" ?seen] by auto
  have r: "resetFailedLoginAttempts (u_id user) st = Inr st1"
    using st1(1) by (simp add: resetFailedLoginAttempts_def)
  have l: "updateLastLogin now (u_id user) ?st2 = Inr st3"
    using st3(1) by (simp add: updateLastLogin_def)
  have s: "sessions st3 = sessions st @
                [\<lparr> s_id = newId, s_userId = u_id user,
                   s_refreshToken = hashToken L (refreshToken_of tokens),
                   s_ipAddress = ipAddress, s_userAgent = userAgent, s_isActive = True,
                   s_expiresAt = now + sessionTimeoutMs cfg, s_createdAt = now \<rparr>]"
    using st3(2) st1(3) by (simp add: createSession_def)
  let ?st4 = "logAuditEvent now (Some (u_id user)) ''LOGIN'' ''AUTH''
                [(''email'', JStr email), (''ipAddress'', JStr ipAddress),
                 (''userAgent'', JStr userAgent), (''success'', JBool True)] st3"
  have "authenticateUser L cfg now uuid newId email password ipAddress userAgent st
        = (Inr tokens, ?st4)"
    unfolding authenticateUser_def Let_def
    by (simp only: found unlocked pw gen r l option.case sum.case if_False if_True not_not simp_thms)
  moreover have "sessions ?st4 = sessions st @
                [\<lparr> s_id = newId, s_userId = u_id user,
                   s_refreshToken = hashToken L (refreshToken_of tokens),
                   s_ipAddress = ipAddress, s_userAgent = userAgent, s_isActive = True,
                   s_expiresAt = now + sessionTimeoutMs cfg, s_createdAt = now \<rparr>]"
    using s by simp
  ultimately show ?thesis by (intro exI conjI)
qed

text \<open>The deactivated user \<open>u3\<close> logs in and gets a session.\<close>

theorem authenticateUser_ignores_isActive_witness:
  "\<exists>st'. findUserByEmail demo_store ''c@x.com''
             = Some ((demo_user ''u3'' ''c@x.com'' ''P1'')\<lparr>u_isActive := False\<rparr>)
      \<and> authenticateUser demo_library default_config 1000 ''rt-new'' ''s2''
           ''c@x.com'' ''P1'' ''10.0.0.9'' ''agent'' demo_store
         = (Inr \<lparr>accessToken = ''jwt:u3'', refreshToken_of = ''rt-new'', expiresIn = 86400000,
                 refreshExpiresIn = 604800000, tokenType = ''Bearer''\<rparr>, st')
      \<and> map s_userId (sessions st') = [''u1'', ''u3'']"
proof -
  let ?user = "(demo_user ''u3'' ''c@x.com'' ''P1'')\<lparr>u_isActive := False\<rparr>"
  let ?tokens = "\<lparr>accessToken = ''jwt:u3'', refreshToken_of = ''rt-new'', expiresIn = 86400000,
                 refreshExpiresIn = 604800000, tokenType = ''Bearer''\<rparr>"
  have f: "findUserByEmail demo_store ''c@x.com'' = Some ?user"
    by (simp add: findUserByEmail_def demo_store_def demo_user_def)
  have n: "\<not> u_isLocked ?user" by (simp add: demo_user_def)
  have p: "bcrypt_compare demo_library ''P1'' (u_password ?user)"
    by (simp add: demo_library_def demo_user_def)
  have g: "generateTokens demo_library default_config 1000 ''rt-new'' (u_id ?user) = Inr ?tokens"
    by (simp add: generateTokens_def parseJwtExpiration_def is_digit_def parseInt_def units_def
          demo_defs)
  from authenticateUser_ignores_isActive [OF f n p g, of "''s2''" "''10.0.0.9''" "''agent''"]
  obtain st' where a: "authenticateUser demo_library default_config 1000 ''rt-new'' ''s2''
           ''c@x.com'' ''P1'' ''10.0.0.9'' ''agent'' demo_store = (Inr ?tokens, st')"
    and s: "sessions st' = sessions demo_store @
                [\<lparr> s_id = ''s2'', s_userId = u_id ?user,
                   s_refreshToken = hashToken demo_library (refreshToken_of ?tokens),
                   s_ipAddress = ''10.0.0.9'', s_userAgent = ''agent'', s_isActive = True,
                   s_expiresAt = 1000 + sessionTimeoutMs default_config, s_createdAt = 1000 \<rparr>]"
    by (elim exE conjE) (rule that)
  have "map s_userId (sessions st') = [''u1'', ''u3'']"
    unfolding s by (simp add: demo_store_def demo_session_def demo_user_def)
  then show ?thesis using f a by (intro exI conjI)
qed


section \<open>Token issue and verification\<close>

text \<open>
  C5. Let the JWT library verify, at time \<open>t1\<close>, what it signed at time \<open>t0\<close> for the
  payload \<^verbatim>\<open>{ userId, type: 'access' }\<close> under the configured secret and life time (the
  token is genuine and has not expired). If a user with id \<open>userId\<close> is stored and active
  when the token is verified, then \<^verbatim>\<open>verifyToken\<close> on the access token that
  \<^verbatim>\<open>generateTokens\<close> issued for \<open>userId\<close> returns an identity with that same id.
\<close>

theorem issue_verify_roundtrip:
  assumes lib: "\<And>signed.
        jwt_sign L \<lparr>p_userId = userId, p_type = ''access''\<rparr> (jwtSecret cfg) (jwtExpiresIn cfg) t0
          = Inr signed
        \<Longrightarrow> jwt_verify L signed (jwtSecret cfg) t1 = Some \<lparr>p_userId = userId, p_type = ''access''\<rparr>"
    and found: "findUserById st userId = Some user"
    and active: "u_isActive user"
    and gen: "generateTokens L cfg t0 uuid userId = Inr tokens"
  shows "\<exists>identity. verifyToken L cfg t1 (accessToken tokens) st = Inr identity
           \<and> nu_id identity = userId"
proof -
  from gen obtain signed where
      sg: "jwt_sign L \<lparr>p_userId = userId, p_type = ''access''\<rparr> (jwtSecret cfg) (jwtExpiresIn cfg) t0
            = Inr signed"
      and tk: "accessToken tokens = signed"
    by (auto simp: generateTokens_def split: sum.splits)
  have v: "jwt_verify L (accessToken tokens) (jwtSecret cfg) t1
           = Some \<lparr>p_userId = userId, p_type = ''access''\<rparr>"
    using lib [OF sg] tk by simp
  from found have "u_id user = userId"
    using find_Some_mem [of "\<lambda>u. u_id u = userId" "users st" user] by (simp add: findUserById_def)
  then show ?thesis
    using v found active by (simp add: verifyToken_def verifyToken_try_def)
qed

text \<open>Tokens issued for \<open>u1\<close> at time 1000 verify at time 2000 as \<open>u1\<close>.\<close>

theorem issue_verify_roundtrip_witness:
  "\<exists>tokens identity.
       generateTokens demo_library default_config 1000 ''rt-new'' ''u1'' = Inr tokens
     \<and> verifyToken demo_library default_config 2000 (accessToken tokens) demo_store = Inr identity
     \<and> nu_id identity = ''u1''"
proof -
  let ?tokens = "\<lparr>accessToken = ''jwt:u1'', refreshToken_of = ''rt-new'', expiresIn = 86400000,
                 refreshExpiresIn = 604800000, tokenType = ''Bearer''\<rparr>"
  have g: "generateTokens demo_library default_config 1000 ''rt-new'' ''u1'' = Inr ?tokens"
    by (simp add: generateTokens_def parseJwtExpiration_def is_digit_def parseInt_def units_def
          demo_defs)
  have f: "findUserById demo_store ''u1'' = Some (demo_user ''u1'' ''a@x.com'' ''P1'')"
    by (simp add: findUserById_def demo_store_def demo_user_def)
  have a: "u_isActive (demo_user ''u1'' ''a@x.com'' ''P1'')"
    by (simp add: demo_user_def)
  have "\<exists>identity. verifyToken demo_library default_config 2000 (accessToken ?tokens) demo_store
          = Inr identity \<and> nu_id identity = ''u1''"
    by (rule issue_verify_roundtrip [OF _ f a g]) (auto simp: demo_library_def)
  then show ?thesis using g by blast
qed

section \<open>Failed logins\<close>

lemma logFailedLogin_auditLog:
  "auditLog st' = auditLog st \<Longrightarrow>
   auditLog (logFailedLogin now email ipAddress userAgent reason st')
   = auditLog (logFailedLogin now email ipAddress userAgent reason st)"
  by (simp add: logFailedLogin_def logAuditEvent_def)

lemma handleFailedLogin_auditLog:
  assumes "findUserById st userId = Some u"
  shows "\<exists>st'. handleFailedLogin cfg now userId email ipAddress userAgent st = Inr st'
           \<and> auditLog st' = auditLog (logFailedLogin now email ipAddress userAgent ''Invalid password'' st)"
proof -
  let ?inc = "\<lambda>u. u\<lparr>u_failedLoginAttempts := u_failedLoginAttempts u + 1\<rparr>"
  let ?lock = "\<lambda>u. u\<lparr>u_isLocked := True, u_lockedUntil := Some (now + lockoutDurationMs cfg)\<rparr>"
  obtain st1 where st1: "user_update userId ?inc st = Inr (?inc u, st1)"
      "findUserById st1 userId = Some (?inc u)" "auditLog st1 = auditLog st"
    using user_update_found [OF assms, of ?inc] by auto
  obtain st2 where st2: "user_update userId ?lock st1 = Inr (?lock (?inc u), st2)"
      "auditLog st2 = auditLog st1"
    using user_update_found [OF st1(2), of ?lock] by auto
  show ?thesis
  proof (cases "maxLoginAttempts cfg \<le> u_failedLoginAttempts u + 1")
    case True
    then show ?thesis
      using st1 st2 logFailedLogin_auditLog [of st2 st now email ipAddress userAgent]
      by (simp add: handleFailedLogin_def)
  next
    case False
    then show ?thesis
      using st1 logFailedLogin_auditLog [of st1 st now email ipAddress userAgent]
      by (simp add: handleFailedLogin_def)
  qed
qed




text \<open>The audit entry of a failed login, with the reason in its details.\<close>

lemma logFailedLogin_entry:
  "auditLog (logFailedLogin now email ipAddress userAgent reason st) =
     auditLog st @
       [\<lparr> a_userId = None, a_action = ''LOGIN_FAILED'', a_resource = ''AUTH'',
          a_ipAddress = (if ipAddress = [] then JStr ''unknown'' else JStr ipAddress),
          a_userAgent = (if userAgent = [] then JStr ''unknown'' else JStr userAgent),
          a_details = [(''email'', JStr email), (''ipAddress'', JStr ipAddress),
                       (''userAgent'', JStr userAgent), (''reason'', JStr reason),
                       (''success'', JBool False)],
          a_timestamp = now \<rparr>]"
  by (simp add: logFailedLogin_def logAuditEvent_def js_or_def js_get_def)

text \<open>
  C1. The lock check of \<^verbatim>\<open>authenticateUser\<close> reads the \<open>isLocked\<close> flag and nothing else;
  \<open>lockedUntil\<close> is written by \<^verbatim>\<open>handleFailedLogin\<close> and never read. User \<open>u2\<close> is
  stored with \<open>isLocked = true\<close> and \<open>lockedUntil = 100\<close>. At time 1000, with the cooldown
  long over and the correct password \<open>P1\<close>, the login is still refused with the
  locked-account error: no token pair is issued and the lock does not expire lazily.
\<close>

theorem authenticateUser_locked_after_cooldown:
  "(\<exists>user. findUserByEmail demo_store ''b@x.com'' = Some user
           \<and> u_isLocked user \<and> u_lockedUntil user = Some 100
           \<and> bcrypt_compare demo_library ''P1'' (u_password user))
   \<and> fst (authenticateUser demo_library default_config 1000 ''rt-new'' ''s2''
             ''b@x.com'' ''P1'' ''10.0.0.9'' ''agent'' demo_store)
       = Inl (Error ''Account is locked due to multiple failed login attempts'')"
  by (simp add: authenticateUser_def findUserByEmail_def demo_defs)

text \<open>
  Counterexample to C2 as stated: a login for an unknown email and a login for the locked
  user \<open>u2\<close> both fail, and \<^verbatim>\<open>authenticateUser\<close> throws two different errors.
\<close>

theorem authenticateUser_errors_differ:
  "fst (authenticateUser demo_library default_config 1000 ''rt-new'' ''s2''
          ''nobody@x.com'' ''P1'' ''10.0.0.9'' ''agent'' demo_store)
     = Inl (Error ''Invalid credentials'')
   \<and> fst (authenticateUser demo_library default_config 1000 ''rt-new'' ''s2''
          ''b@x.com'' ''P1'' ''10.0.0.9'' ''agent'' demo_store)
     = Inl (Error ''Account is locked due to multiple failed login attempts'')
   \<and> fst (authenticateUser demo_library default_config 1000 ''rt-new'' ''s2''
          ''nobody@x.com'' ''P1'' ''10.0.0.9'' ''agent'' demo_store)
     \<noteq> fst (authenticateUser demo_library default_config 1000 ''rt-new'' ''s2''
          ''b@x.com'' ''P1'' ''10.0.0.9'' ''agent'' demo_store)"
  by (simp add: authenticateUser_def findUserByEmail_def demo_defs)

text \<open>
  C2, amended. \<^verbatim>\<open>authenticateUser\<close> throws \<^verbatim>\<open>Invalid credentials\<close> when the user is not found
  and when the password is wrong, and the distinct
  \<^verbatim>\<open>Account is locked due to multiple failed login attempts\<close> when the account is locked.
  In each of the three cases it appends a \<^verbatim>\<open>LOGIN_FAILED\<close> audit entry whose details carry
  the true reason (\<^verbatim>\<open>User not found\<close>, \<^verbatim>\<open>Account locked\<close>, \<^verbatim>\<open>Invalid password\<close>). The
  route \<^verbatim>\<open>POST /login\<close> answers every error thrown by \<^verbatim>\<open>authenticateUser\<close> with the same
  401 \<^verbatim>\<open>Invalid credentials\<close>.
\<close>

theorem authenticateUser_failure_errors:
  "(findUserByEmail st email = None \<longrightarrow>
      authenticateUser L cfg now uuid newId email password ipAddress userAgent st
      = (Inl (Error ''Invalid credentials''),
         logFailedLogin now email ipAddress userAgent ''User not found'' st))
   \<and> (\<forall>user. findUserByEmail st email = Some user \<longrightarrow> u_isLocked user \<longrightarrow>
      authenticateUser L cfg now uuid newId email password ipAddress userAgent st
      = (Inl (Error ''Account is locked due to multiple failed login attempts''),
         logFailedLogin now email ipAddress userAgent ''Account locked'' st))
   \<and> (\<forall>user. findUserByEmail st email = Some user \<longrightarrow> \<not> u_isLocked user \<longrightarrow>
        \<not> bcrypt_compare L password (u_password user) \<longrightarrow>
      (\<exists>st'. authenticateUser L cfg now uuid newId email password ipAddress userAgent st
              = (Inl (Error ''Invalid credentials''), st')
           \<and> auditLog st'
              = auditLog (logFailedLogin now email ipAddress userAgent ''Invalid password'' st)))
   \<and> (\<forall>e st'. email \<noteq> [] \<longrightarrow> password \<noteq> [] \<longrightarrow> userAgent \<noteq> [] \<longrightarrow>
      authenticateUser L cfg now uuid newId email password ipAddress userAgent st = (Inl e, st')
      \<longrightarrow> login_route L cfg now uuid newId email password ipAddress (Some userAgent) st
          = (HttpError 401 ''Invalid credentials'', st'))"
proof (intro conjI allI impI)
  assume "findUserByEmail st email = None"
  then show "authenticateUser L cfg now uuid newId email password ipAddress userAgent st
      = (Inl (Error ''Invalid credentials''),
         logFailedLogin now email ipAddress userAgent ''User not found'' st)"
    by (simp add: authenticateUser_def)
next
  fix user
  assume "findUserByEmail st email = Some user" "u_isLocked user"
  then show "authenticateUser L cfg now uuid newId email password ipAddress userAgent st
      = (Inl (Error ''Account is locked due to multiple failed login attempts''),
         logFailedLogin now email ipAddress userAgent ''Account locked'' st)"
    by (simp add: authenticateUser_def)
next
  fix user
  assume f: "findUserByEmail st email = Some user" and n: "\<not> u_isLocked user"
    and p: "\<not> bcrypt_compare L password (u_password user)"
  obtain u0 where "findUserById st (u_id user) = Some u0"
    using findUserByEmail_has_id [OF f] by blast
  from handleFailedLogin_auditLog [OF this, of cfg now email ipAddress userAgent]
  obtain st1 where h: "handleFailedLogin cfg now (u_id user) email ipAddress userAgent st = Inr st1"
    and a: "auditLog st1
            = auditLog (logFailedLogin now email ipAddress userAgent ''Invalid password'' st)"
    by (elim exE conjE) (rule that)
  have "authenticateUser L cfg now uuid newId email password ipAddress userAgent st
        = (Inl (Error ''Invalid credentials''), st1)"
    using f n p h by (simp add: authenticateUser_def)
  then show "\<exists>st'. authenticateUser L cfg now uuid newId email password ipAddress userAgent st
              = (Inl (Error ''Invalid credentials''), st')
           \<and> auditLog st'
              = auditLog (logFailedLogin now email ipAddress userAgent ''Invalid password'' st)"
    using a by (intro exI conjI)
next
  fix e st'
  assume "email \<noteq> []" "password \<noteq> []" "userAgent \<noteq> []"
    "authenticateUser L cfg now uuid newId email password ipAddress userAgent st = (Inl e, st')"
  then show "login_route L cfg now uuid newId email password ipAddress (Some userAgent) st
          = (HttpError 401 ''Invalid credentials'', st')"
    by (simp add: login_route_def)
qed


text \<open>
  The three failures on the concrete store: unknown email, locked user \<open>u2\<close>, wrong
  password for \<open>u1\<close>; and the answer of the route to the locked user.
\<close>

theorem authenticateUser_failure_errors_witness:
  "authenticateUser demo_library default_config 1000 ''rt-new'' ''s2''
     ''nobody@x.com'' ''P1'' ''10.0.0.9'' ''agent'' demo_store
   = (Inl (Error ''Invalid credentials''),
      logFailedLogin 1000 ''nobody@x.com'' ''10.0.0.9'' ''agent'' ''User not found'' demo_store)
   \<and> authenticateUser demo_library default_config 1000 ''rt-new'' ''s2''
       ''b@x.com'' ''P1'' ''10.0.0.9'' ''agent'' demo_store
     = (Inl (Error ''Account is locked due to multiple failed login attempts''),
        logFailedLogin 1000 ''b@x.com'' ''10.0.0.9'' ''agent'' ''Account locked'' demo_store)
   \<and> (\<exists>st'. authenticateUser demo_library default_config 1000 ''rt-new'' ''s2''
               ''a@x.com'' ''P2'' ''10.0.0.9'' ''agent'' demo_store
             = (Inl (Error ''Invalid credentials''), st')
           \<and> auditLog st'
             = auditLog (logFailedLogin 1000 ''a@x.com'' ''10.0.0.9'' ''agent''
                           ''Invalid password'' demo_store))
   \<and> login_route demo_library default_config 1000 ''rt-new'' ''s2''
       ''b@x.com'' ''P1'' ''10.0.0.9'' (Some ''agent'') demo_store
     = (HttpError 401 ''Invalid credentials'',
        logFailedLogin 1000 ''b@x.com'' ''10.0.0.9'' ''agent'' ''Account locked'' demo_store)"
proof -
  note T = authenticateUser_failure_errors
             [where L = demo_library and cfg = default_config and now = 1000
                and uuid = "''rt-new''" and newId = "''s2''" and ipAddress = "''10.0.0.9''"
                and userAgent = "''agent''" and st = demo_store]
  have nobody: "findUserByEmail demo_store ''nobody@x.com'' = None"
    by (simp add: findUserByEmail_def demo_store_def demo_user_def)
  have b: "findUserByEmail demo_store ''b@x.com''
           = Some ((demo_user ''u2'' ''b@x.com'' ''P1'')
                     \<lparr>u_isLocked := True, u_lockedUntil := Some 100, u_failedLoginAttempts := 5\<rparr>)"
    by (simp add: findUserByEmail_def demo_store_def demo_user_def)
  have a: "findUserByEmail demo_store ''a@x.com'' = Some (demo_user ''u1'' ''a@x.com'' ''P1'')"
    by (simp add: findUserByEmail_def demo_store_def demo_user_def)
  have c1: "authenticateUser demo_library default_config 1000 ''rt-new'' ''s2''
              ''nobody@x.com'' ''P1'' ''10.0.0.9'' ''agent'' demo_store
            = (Inl (Error ''Invalid credentials''),
               logFailedLogin 1000 ''nobody@x.com'' ''10.0.0.9'' ''agent'' ''User not found''
                 demo_store)"
    by (rule T [THEN conjunct1, rule_format, OF nobody])
  have c2: "authenticateUser demo_library default_config 1000 ''rt-new'' ''s2''
              ''b@x.com'' ''P1'' ''10.0.0.9'' ''agent'' demo_store
            = (Inl (Error ''Account is locked due to multiple failed login attempts''),
               logFailedLogin 1000 ''b@x.com'' ''10.0.0.9'' ''agent'' ''Account locked''
                 demo_store)"
    by (rule T [THEN conjunct2, THEN conjunct1, rule_format, OF b]) simp
  have c3: "\<exists>st'. authenticateUser demo_library default_config 1000 ''rt-new'' ''s2''
               ''a@x.com'' ''P2'' ''10.0.0.9'' ''agent'' demo_store
             = (Inl (Error ''Invalid credentials''), st')
           \<and> auditLog st'
             = auditLog (logFailedLogin 1000 ''a@x.com'' ''10.0.0.9'' ''agent''
                           ''Invalid password'' demo_store)"
    by (rule T [THEN conjunct2, THEN conjunct2, THEN conjunct1, rule_format, OF a])
       (simp_all add: demo_user_def demo_library_def)
  have c4: "login_route demo_library default_config 1000 ''rt-new'' ''s2''
              ''b@x.com'' ''P1'' ''10.0.0.9'' (Some ''agent'') demo_store
            = (HttpError 401 ''Invalid credentials'',
               logFailedLogin 1000 ''b@x.com'' ''10.0.0.9'' ''agent'' ''Account locked''
                 demo_store)"
    by (rule T [THEN conjunct2, THEN conjunct2, THEN conjunct2, rule_format, OF _ _ _ c2])
       simp_all
  from c1 c2 c3 c4 show ?thesis by (intro conjI)
qed

end
